theory Spec2Isabelle
  imports Main "HOL-Library.Char_ord" "HOL-Library.List_Lexorder" "HOL-Library.AList"
begin

section \<open>Values, exceptions and the observable trace\<close>

text \<open>
  Trust documents are parsed JSON (\<open>resp.json()\<close>, \<open>load_metadata_from_file\<close>).
  Python's \<open>None\<close> is \<open>JNull\<close>, a \<open>dict\<close> is an association list in insertion
  order. JSON numbers are integers here: a document whose \<open>signed.version\<close> is a float
  is outside the model. Strings are ASCII.
\<close>

datatype json =
    JNull
  | JBool bool
  | JInt int
  | JStr string
  | JList "json list"
  | JObj "(string \<times> json) list"

text \<open>
  The exception classes the module distinguishes. \<open>HTTPError\<close> carries
  \<open>err.response.status_code\<close>; \<open>ConnectionError\<close> is the builtin class, which is
  what the name in the \<open>except\<close> clause of \<open>key_mgr\<close> denotes, since the module imports
  only \<open>HTTPError\<close> and \<open>InsecureRequestWarning\<close> from \<open>..gateways.connection\<close>;
  \<open>OtherException\<close> stands for every other subclass of \<open>Exception\<close>, named by its
  class. The connection errors and timeouts of the HTTP client are of that kind: they do
  not derive from the builtin \<open>ConnectionError\<close>.
\<close>

datatype exn =
    HTTPError int
  | ConnectionError
  | ValueError
  | KeyError string
  | TypeError
  | NameError
  | OSError
  | SignatureError
  | OtherException string

datatype level = DEBUG | INFO | WARN | ERROR

datatype logmsg = Msg string | Err exn

text \<open>
  What the module does to the outside world, in the order it does it: HTTP requests,
  calls of the verification library, accesses to the verification directory, log records.
\<close>

datatype event =
    Get string
  | VerifyRoot json json
  | VerifyDelegation string json json
  | Glob
  | Load string
  | Write string json
  | MakeDirs
  | Log level logmsg

datatype response = Response int "json option"

text \<open>
  \<open>env\<close> holds what the module reads but does not own: the three settings of
  \<open>context\<close> it consults, whether \<open>conda_content_trust\<close> can be imported, the constant
  \<open>INITIAL_TRUST_ROOT\<close> of \<open>.constants\<close> (not part of the sources at hand, hence a
  parameter), the library's \<open>verify_root\<close>, \<open>verify_delegation\<close> and
  \<open>wrap_as_signable\<close> (\<open>None\<close>: returns normally, \<open>Some x\<close>: raises \<open>x\<close>;
  when the import at the top of the module failed these names are unbound and the call
  raises \<open>NameError\<close> before its arguments are evaluated), and
  the HTTP session: \<open>session_get t base filename\<close> is what the \<open>t\<close>-th request of the
  process, \<open>session.get(join_url(base, filename), ...)\<close>, produces. The library
  functions are taken as functions of values: they do not modify their arguments.
\<close>

record env =
  extra_safety_checks :: bool
  signing_metadata_url_base :: "string option"
  av_data_dir :: string
  cct_installed :: bool
  INITIAL_TRUST_ROOT :: json
  verify_root :: "json \<Rightarrow> json \<Rightarrow> exn option"
  verify_delegation :: "string \<Rightarrow> json \<Rightarrow> json \<Rightarrow> exn option"
  wrap_as_signable :: "json \<Rightarrow> exn + json"
  session_get :: "nat \<Rightarrow> string option \<Rightarrow> string \<Rightarrow> exn + response"

text \<open>
  The mutable state: the verification directory (\<open>None\<close> when it does not exist, else
  its files by name with their parsed content), the number of requests sent so far, the
  trace, and the three \<open>lru_cache\<close> cells of the singleton \<open>signature_verification\<close>
  (\<open>None\<close>: nothing cached yet).
\<close>

record world =
  av_dir :: "(string \<times> json) list option"
  requests :: nat
  trace :: "event list"
  enabled_cache :: "bool option"
  trusted_root_cache :: "json option"
  key_mgr_cache :: "json option"

definition emit :: "event \<Rightarrow> world \<Rightarrow> world" where
  "emit ev w = w\<lparr>trace := trace w @ [ev]\<rparr>"

definition log :: "level \<Rightarrow> logmsg \<Rightarrow> world \<Rightarrow> world" where
  "log l m w = emit (Log l m) w"

section \<open>Strings, paths and file names\<close>

definition is_digit :: "char \<Rightarrow> bool" where
  "is_digit c = (c \<in> set ''0123456789'')"

definition digit_char :: "nat \<Rightarrow> char" where
  "digit_char d = ''0123456789'' ! d"

function str_nat :: "nat \<Rightarrow> string" where
  "str_nat n = (if n < 10 then [digit_char n] else str_nat (n div 10) @ [digit_char (n mod 10)])"
  by pat_completeness auto
termination
  by (relation "measure id") auto

declare str_nat.simps [simp del]

text \<open>\<open>str(i)\<close>, as the f-string formats an \<open>int\<close>.\<close>

definition str_int :: "int \<Rightarrow> string" where
  "str_int i = (if i < 0 then CHR ''-'' # str_nat (nat (- i)) else str_nat (nat i))"

text \<open>\<open>f"{version + 1}.root.json"\<close>, given the sum.\<close>

definition root_fname :: "int \<Rightarrow> string" where
  "root_fname n = str_int n @ ''.root.json''"

text \<open>
  Modelled from the spec: the constant \<open>KEY_MGR_FILE\<close> of \<open>.constants\<close>, which the
  sources at hand do not include; the spec names the file \<open>key_mgr.json\<close>.
\<close>

definition KEY_MGR_FILE :: string where
  "KEY_MGR_FILE = ''key_mgr.json''"

text \<open>\<open>os.path.join\<close> of two components (POSIX).\<close>

definition join :: "string \<Rightarrow> string \<Rightarrow> string" where
  "join a b =
     (if b \<noteq> [] \<and> hd b = CHR ''/'' then b
      else if a = [] \<or> last a = CHR ''/'' then a @ b
      else a @ ''/'' @ b)"

definition endswith :: "string \<Rightarrow> string \<Rightarrow> bool" where
  "endswith s suf = (length suf \<le> length s \<and> drop (length s - length suf) s = suf)"

text \<open>\<open>fnmatch(name, "[0-9]*.root.json")\<close>: a digit, anything, the literal suffix.\<close>

definition fnmatch_root :: "string \<Rightarrow> bool" where
  "fnmatch_root name =
     (case name of [] \<Rightarrow> False | c # cs \<Rightarrow> is_digit c \<and> endswith cs ''.root.json'')"

text \<open>
  Whether \<open>int(s)\<close> returns rather than raising \<open>ValueError\<close>, for an ASCII string:
  surrounding whitespace (space, tab, line feed, vertical tab, form feed, carriage
  return) is skipped, one sign is allowed, then digits with single underscores between
  them.
\<close>

definition is_space :: "char \<Rightarrow> bool" where
  "is_space c = (c \<in> set [CHR 0x09, CHR 0x0A, CHR 0x0B, CHR 0x0C, CHR 0x0D, CHR 0x20])"

definition strip :: "string \<Rightarrow> string" where
  "strip s = rev (dropWhile is_space (rev (dropWhile is_space s)))"

fun digits_tail :: "string \<Rightarrow> bool" where
  "digits_tail [] = True"
| "digits_tail (c # cs) =
     (if is_digit c then digits_tail cs
      else if c = CHR ''_'' then (case cs of [] \<Rightarrow> False | d # ds \<Rightarrow> is_digit d \<and> digits_tail ds)
      else False)"

definition int_parses :: "string \<Rightarrow> bool" where
  "int_parses s =
     (let t = strip s;
          u = (case t of [] \<Rightarrow> [] | c # cs \<Rightarrow> if c = CHR ''+'' \<or> c = CHR ''-'' then cs else t)
      in case u of [] \<Rightarrow> False | d # ds \<Rightarrow> is_digit d \<and> digits_tail ds)"

text \<open>\<open>basename(path).split(".")[0]\<close> for a path inside the directory.\<close>

definition name_prefix :: "string \<Rightarrow> string" where
  "name_prefix name = takeWhile (\<lambda>c. c \<noteq> CHR ''.'') name"

section \<open>Reading a document\<close>

text \<open>\<open>obj[key]\<close> with a string key.\<close>

definition getitem :: "json \<Rightarrow> string \<Rightarrow> exn + json" where
  "getitem j k =
     (case j of
        JObj kvs \<Rightarrow> (case map_of kvs k of None \<Rightarrow> Inl (KeyError k) | Some v \<Rightarrow> Inr v)
      | _ \<Rightarrow> Inl TypeError)"

text \<open>
  \<open>trusted['signed']['version']\<close> as the left operand of \<open>+ 1\<close>: an \<open>int\<close>, or a
  \<open>bool\<close> (which is an \<open>int\<close> in Python); with anything else the addition raises.
\<close>

definition version :: "json \<Rightarrow> exn + int" where
  "version trusted =
     (case getitem trusted ''signed'' of
        Inl x \<Rightarrow> Inl x
      | Inr s \<Rightarrow>
          (case getitem s ''version'' of
             Inl x \<Rightarrow> Inl x
           | Inr (JInt i) \<Rightarrow> Inr i
           | Inr (JBool b) \<Rightarrow> Inr (if b then 1 else 0)
           | Inr _ \<Rightarrow> Inl TypeError))"

text \<open>\<open>trusted['signed']['version'] + 1\<close>.\<close>

definition next_version :: "json \<Rightarrow> exn + int" where
  "next_version trusted = (case version trusted of Inl x \<Rightarrow> Inl x | Inr v \<Rightarrow> Inr (v + 1))"

text \<open>The truth value of a document (\<open>not trusted\<close>).\<close>

definition truthy :: "json \<Rightarrow> bool" where
  "truthy j =
     (case j of
        JNull \<Rightarrow> False
      | JBool b \<Rightarrow> b
      | JInt i \<Rightarrow> i \<noteq> 0
      | JStr s \<Rightarrow> s \<noteq> []
      | JList xs \<Rightarrow> xs \<noteq> []
      | JObj kvs \<Rightarrow> kvs \<noteq> [])"

section \<open>The verification directory and the network\<close>

text \<open>
  \<open>load_metadata_from_file\<close> and \<open>write_metadata_to_file\<close> come from
  \<open>conda_content_trust\<close>: when the import at the top of the module failed the names are
  unbound and using them raises \<open>NameError\<close>. A file holds the document written to it.
  Reading a missing file and writing into a missing directory raise \<open>OSError\<close>; other
  failures of the operating system (permissions, a full disk) are not modelled.
\<close>

definition load_metadata_from_file :: "env \<Rightarrow> string \<Rightarrow> world \<Rightarrow> (exn + json) \<times> world" where
  "load_metadata_from_file e name w =
     (if \<not> cct_installed e then (Inl NameError, w)
      else case av_dir w of
             None \<Rightarrow> (Inl OSError, w)
           | Some fs \<Rightarrow>
               (case map_of fs name of
                  None \<Rightarrow> (Inl OSError, w)
                | Some d \<Rightarrow> (Inr d, emit (Load name) w)))"

definition write_metadata_to_file :: "env \<Rightarrow> json \<Rightarrow> string \<Rightarrow> world \<Rightarrow> (exn + unit) \<times> world" where
  "write_metadata_to_file e d name w =
     (if \<not> cct_installed e then (Inl NameError, w)
      else case av_dir w of
             None \<Rightarrow> (Inl OSError, w)
           | Some fs \<Rightarrow> (Inr (), emit (Write name d) (w\<lparr>av_dir := Some (AList.update name d fs)\<rparr>)))"

definition exists_file :: "string \<Rightarrow> world \<Rightarrow> bool" where
  "exists_file name w = (case av_dir w of None \<Rightarrow> False | Some fs \<Rightarrow> map_of fs name \<noteq> None)"

text \<open>
  \<open>glob(join(context.av_data_dir, "[0-9]*.root.json"))\<close>, as file names. The world
  holds one directory, the one at \<open>context.av_data_dir\<close>, and the path of that directory
  is taken to be free of the metacharacters \<open>*\<close>, \<open>?\<close> and \<open>[\<close>: with one of them
  \<open>glob\<close> would read the directory part as a pattern too and list other directories,
  which the world does not have.
\<close>

definition glob_roots :: "world \<Rightarrow> string list" where
  "glob_roots w = (case av_dir w of None \<Rightarrow> [] | Some fs \<Rightarrow> filter fnmatch_root (map fst fs))"

text \<open>
  What \<open>_fetch_channel_signing_data\<close> produces for the \<open>t\<close>-th request:
  \<open>session.get\<close> may raise, \<open>raise_for_status\<close> raises \<open>HTTPError\<close> on a 4xx or 5xx
  status, and a body that is not JSON becomes \<open>ValueError\<close>.
\<close>

definition fetch_outcome :: "env \<Rightarrow> nat \<Rightarrow> string \<Rightarrow> exn + json" where
  "fetch_outcome e t filename =
     (case session_get e t (signing_metadata_url_base e) filename of
        Inl x \<Rightarrow> Inl x
      | Inr (Response status body) \<Rightarrow>
          if 400 \<le> status \<and> status < 600 then Inl (HTTPError status)
          else (case body of None \<Rightarrow> Inl ValueError | Some j \<Rightarrow> Inr j))"

definition fetch_channel_signing_data :: "env \<Rightarrow> string \<Rightarrow> world \<Rightarrow> (exn + json) \<times> world" where
  "fetch_channel_signing_data e filename w =
     (fetch_outcome e (requests w) filename,
      emit (Get filename) (w\<lparr>requests := Suc (requests w)\<rparr>))"

section \<open>\<open>trusted_root\<close>\<close>

text \<open>
  The \<open>for ... else\<close> over \<open>sorted(glob(...), reverse=True)\<close>: the first name whose
  prefix \<open>int\<close> accepts is loaded, and without one the built-in root stays. Paths share
  the directory, so sorting them sorts the names; strings compare by code point.
\<close>

definition start_root :: "env \<Rightarrow> world \<Rightarrow> (exn + json) \<times> world" where
  "start_root e w =
     (let w1 = emit Glob w in
      case find (\<lambda>name. int_parses (name_prefix name)) (rev (sort (glob_roots w))) of
        Some name \<Rightarrow>
          load_metadata_from_file e name
            (log INFO (Msg (''Loading root metadata from '' @ join (av_data_dir e) name @ ''.'')) w1)
      | None \<Rightarrow>
          (Inr (INITIAL_TRUST_ROOT e),
           log DEBUG (Msg (''No root metadata in '' @ av_data_dir e @ ''. Using built-in root metadata.'')) w1))"

text \<open>The two \<open>except\<close> clauses of the refresh loop: both stop it, a 404 silently.\<close>

definition refresh_failed :: "exn \<Rightarrow> world \<Rightarrow> world" where
  "refresh_failed x w =
     (case x of
        HTTPError status \<Rightarrow> if status \<noteq> 404 then log ERROR (Err x) w else w
      | _ \<Rightarrow> log ERROR (Err x) w)"

text \<open>
  The \<open>while more_signatures\<close> loop. It has no bound of its own: it runs for as long as
  the server delivers documents that verify, so its result is an option (\<open>None\<close>: the
  loop never ends).
\<close>

partial_function (option) refresh :: "env \<Rightarrow> json \<Rightarrow> world \<Rightarrow> ((exn + json) \<times> world) option" where
  "refresh e trusted w =
     (case next_version trusted of
        Inl x \<Rightarrow> Some (Inl x, w)
      | Inr n \<Rightarrow>
          (case fetch_channel_signing_data e (root_fname n) w of
             (Inl x, w1) \<Rightarrow> Some (Inr trusted, refresh_failed x w1)
           | (Inr untrusted, w1) \<Rightarrow>
               if \<not> cct_installed e then Some (Inr trusted, refresh_failed NameError w1)
               else
                 (case verify_root e trusted untrusted of
                    Some x \<Rightarrow>
                      Some (Inr trusted, refresh_failed x (emit (VerifyRoot trusted untrusted) w1))
                  | None \<Rightarrow>
                      (case write_metadata_to_file e untrusted (root_fname n)
                              (emit (VerifyRoot trusted untrusted) w1) of
                         (Inl x, w2) \<Rightarrow> Some (Inl x, w2)
                       | (Inr _, w2) \<Rightarrow> refresh e untrusted w2))))"

declare refresh.simps [code]

definition trusted_root_body :: "env \<Rightarrow> world \<Rightarrow> ((exn + json) \<times> world) option" where
  "trusted_root_body e w =
     (case start_root e w of
        (Inl x, w1) \<Rightarrow> Some (Inl x, w1)
      | (Inr trusted, w1) \<Rightarrow> refresh e trusted w1)"

text \<open>
  \<open>@property @lru_cache(maxsize=None)\<close> on the singleton: a cached value is returned
  as it is; otherwise the body runs and its value, if it returns one, is stored.
\<close>

definition trusted_root :: "env \<Rightarrow> world \<Rightarrow> ((exn + json) \<times> world) option" where
  "trusted_root e w =
     (case trusted_root_cache w of
        Some v \<Rightarrow> Some (Inr v, w)
      | None \<Rightarrow>
          (case trusted_root_body e w of
             None \<Rightarrow> None
           | Some (Inl x, w1) \<Rightarrow> Some (Inl x, w1)
           | Some (Inr v, w1) \<Rightarrow> Some (Inr v, w1\<lparr>trusted_root_cache := Some v\<rparr>)))"

section \<open>\<open>key_mgr\<close>\<close>

text \<open>
  The \<open>except\<close> clauses of \<open>key_mgr\<close>: \<open>ConnectionError\<close> and \<open>HTTPError\<close> are
  logged and leave \<open>trusted = None\<close>; everything else is raised again.
\<close>

definition key_mgr_except :: "exn \<Rightarrow> world \<Rightarrow> (exn + json) \<times> world" where
  "key_mgr_except x w =
     (case x of
        ConnectionError \<Rightarrow> (Inr JNull, log WARN (Err x) w)
      | HTTPError _ \<Rightarrow> (Inr JNull, log WARN (Err x) w)
      | _ \<Rightarrow> (Inl x, w))"

text \<open>
  The \<open>try\<close> statement: the value of \<open>trusted\<close> after it, or the exception that leaves
  it. \<open>self.trusted_root\<close> is evaluated inside the \<open>try\<close>, after the fetch.
\<close>

definition key_mgr_refresh :: "env \<Rightarrow> world \<Rightarrow> ((exn + json) \<times> world) option" where
  "key_mgr_refresh e w =
     (case fetch_channel_signing_data e KEY_MGR_FILE w of
        (Inl x, w1) \<Rightarrow> Some (key_mgr_except x w1)
      | (Inr untrusted, w1) \<Rightarrow>
          if \<not> cct_installed e then Some (key_mgr_except NameError w1)
          else
            (case trusted_root e w1 of
               None \<Rightarrow> None
             | Some (Inl x, w2) \<Rightarrow> Some (key_mgr_except x w2)
             | Some (Inr root, w2) \<Rightarrow>
                 (case verify_delegation e ''key_mgr'' untrusted root of
                    Some x \<Rightarrow>
                      Some (key_mgr_except x (emit (VerifyDelegation ''key_mgr'' untrusted root) w2))
                  | None \<Rightarrow>
                      (case write_metadata_to_file e untrusted KEY_MGR_FILE
                              (emit (VerifyDelegation ''key_mgr'' untrusted root) w2) of
                         (Inl x, w3) \<Rightarrow> Some (Inl x, w3)
                       | (Inr _, w3) \<Rightarrow> Some (Inr untrusted, w3)))))"

definition key_mgr_body :: "env \<Rightarrow> world \<Rightarrow> ((exn + json) \<times> world) option" where
  "key_mgr_body e w =
     (case key_mgr_refresh e w of
        None \<Rightarrow> None
      | Some (Inl x, w1) \<Rightarrow> Some (Inl x, w1)
      | Some (Inr trusted, w1) \<Rightarrow>
          if \<not> truthy trusted \<and> exists_file KEY_MGR_FILE w1
          then Some (load_metadata_from_file e KEY_MGR_FILE w1)
          else Some (Inr trusted, w1))"

definition key_mgr :: "env \<Rightarrow> world \<Rightarrow> ((exn + json) \<times> world) option" where
  "key_mgr e w =
     (case key_mgr_cache w of
        Some v \<Rightarrow> Some (Inr v, w)
      | None \<Rightarrow>
          (case key_mgr_body e w of
             None \<Rightarrow> None
           | Some (Inl x, w1) \<Rightarrow> Some (Inl x, w1)
           | Some (Inr v, w1) \<Rightarrow> Some (Inr v, w1\<lparr>key_mgr_cache := Some v\<rparr>)))"

section \<open>\<open>enabled\<close>\<close>

definition url_base_unset :: "env \<Rightarrow> bool" where
  "url_base_unset e = (case signing_metadata_url_base e of None \<Rightarrow> True | Some u \<Rightarrow> u = [])"

definition makedirs :: "world \<Rightarrow> world" where
  "makedirs w = emit MakeDirs (w\<lparr>av_dir := Some []\<rparr>)"

text \<open>\<open>if not isdir(context.av_data_dir): ...\<close>\<close>

definition ensure_av_dir :: "world \<Rightarrow> world" where
  "ensure_av_dir w =
     (if av_dir w = None
      then makedirs (log INFO (Msg ''creating directory for artifact verification metadata'') w)
      else w)"

definition enabled_body :: "env \<Rightarrow> world \<Rightarrow> ((exn + bool) \<times> world) option" where
  "enabled_body e w =
     (if \<not> extra_safety_checks e then Some (Inr False, w)
      else if url_base_unset e then
        Some (Inr False,
              log WARN (Msg (''metadata signature verification requested, '' @
                             ''but no metadata URL base has not been specified.'')) w)
      else if \<not> cct_installed e then
        Some (Inr False,
              log WARN (Msg (''metadata signature verification requested, '' @
                             ''but `conda-content-trust` is not installed.'')) w)
      else
        case trusted_root e (ensure_av_dir w) of
             None \<Rightarrow> None
           | Some (Inl x, w2) \<Rightarrow> Some (Inl x, w2)
           | Some (Inr root, w2) \<Rightarrow>
               if root = JNull then
                 Some (Inr False,
                       log WARN (Msg ''could not find trusted_root data for metadata signature verification'') w2)
               else
                 (case key_mgr e w2 of
                    None \<Rightarrow> None
                  | Some (Inl x, w3) \<Rightarrow> Some (Inl x, w3)
                  | Some (Inr km, w3) \<Rightarrow>
                      if km = JNull then
                        Some (Inr False,
                              log WARN (Msg ''could not find key_mgr data for metadata signature verification'') w3)
                      else Some (Inr True, w3)))"

definition enabled :: "env \<Rightarrow> world \<Rightarrow> ((exn + bool) \<times> world) option" where
  "enabled e w =
     (case enabled_cache w of
        Some v \<Rightarrow> Some (Inr v, w)
      | None \<Rightarrow>
          (case enabled_body e w of
             None \<Rightarrow> None
           | Some (Inl x, w1) \<Rightarrow> Some (Inl x, w1)
           | Some (Inr v, w1) \<Rightarrow> Some (Inr v, w1\<lparr>enabled_cache := Some v\<rparr>)))"

section \<open>\<open>__call__\<close>\<close>

text \<open>\<open>obj[key] = value\<close> with a string key: a \<open>dict\<close> keeps the position of a key it has.\<close>

definition setitem :: "json \<Rightarrow> string \<Rightarrow> json \<Rightarrow> exn + json" where
  "setitem j k v = (case j of JObj kvs \<Rightarrow> Inr (JObj (AList.update k v kvs)) | _ \<Rightarrow> Inl TypeError)"

definition status_failed :: string where
  "status_failed = ''(WARNING: metadata signature verification failed)''"

definition status_trusted :: string where
  "status_trusted = ''(INFO: package metadata is signed by Anaconda and trusted)''"

definition status_key :: string where
  "status_key = ''metadata_signature_status''"

text \<open>The \<open>except SignatureError\<close> clause of \<open>__call__\<close>; no other clause follows it.\<close>

definition call_except :: "string \<Rightarrow> exn \<Rightarrow> world \<Rightarrow> (exn + string) \<times> world" where
  "call_except fn x w =
     (case x of
        SignatureError \<Rightarrow> (Inr status_failed, log WARN (Msg (''invalid signature for '' @ fn)) w)
      | _ \<Rightarrow> (Inl x, w))"

text \<open>
  The \<open>try\<close> statement of \<open>__call__\<close>: the status it leaves, or the exception.
  \<open>self.key_mgr\<close> is an argument of the call and so evaluated inside the \<open>try\<close>.
\<close>

definition call_try :: "env \<Rightarrow> string \<Rightarrow> json \<Rightarrow> world \<Rightarrow> ((exn + string) \<times> world) option" where
  "call_try e fn envelope w =
     (if \<not> cct_installed e then Some (call_except fn NameError w)
      else
        (case key_mgr e w of
           None \<Rightarrow> None
         | Some (Inl x, w1) \<Rightarrow> Some (call_except fn x w1)
         | Some (Inr km, w1) \<Rightarrow>
             (case verify_delegation e ''pkg_mgr'' envelope km of
                Some x \<Rightarrow> Some (call_except fn x (emit (VerifyDelegation ''pkg_mgr'' envelope km) w1))
              | None \<Rightarrow> Some (Inr status_trusted, emit (VerifyDelegation ''pkg_mgr'' envelope km) w1))))"

text \<open>
  \<open>__call__(info, fn, signatures)\<close>. \<open>info\<close> and \<open>signatures\<close> are dicts; the result
  is \<open>info\<close> as the caller finds it afterwards (\<open>Inl\<close>: an exception left the call,
  which happens before the only assignment to \<open>info\<close>).
\<close>

definition call ::
  "env \<Rightarrow> (string \<times> json) list \<Rightarrow> string \<Rightarrow> (string \<times> json) list \<Rightarrow> world
     \<Rightarrow> ((exn + (string \<times> json) list) \<times> world) option" where
  "call e info fn signatures w =
     (case enabled e w of
        None \<Rightarrow> None
      | Some (Inl x, w1) \<Rightarrow> Some (Inl x, w1)
      | Some (Inr en, w1) \<Rightarrow>
          if \<not> en then Some (Inr info, w1)
          else
            (case map_of signatures fn of
               None \<Rightarrow> Some (Inr info, w1)
             | Some sigs \<Rightarrow>
                 if \<not> cct_installed e then Some (Inl NameError, w1)
                 else
                   (case wrap_as_signable e (JObj info) of
                      Inl x \<Rightarrow> Some (Inl x, w1)
                    | Inr wrapped \<Rightarrow>
                        (case setitem wrapped ''signatures'' sigs of
                           Inl x \<Rightarrow> Some (Inl x, w1)
                         | Inr envelope \<Rightarrow>
                             (case call_try e fn envelope w1 of
                                None \<Rightarrow> None
                              | Some (Inl x, w2) \<Rightarrow> Some (Inl x, w2)
                              | Some (Inr status, w2) \<Rightarrow>
                                  Some (Inr (AList.update status_key (JStr status) info), w2))))))"

section \<open>Notions used to state the properties\<close>

text \<open>
  A world the process may be in later: reached by any further uses of the singleton
  (under any configuration), whatever their outcome.
\<close>

inductive later :: "world \<Rightarrow> world \<Rightarrow> bool" where
  later_refl: "later w w"
| later_enabled: "later w w1 \<Longrightarrow> enabled e w1 = Some (r, w2) \<Longrightarrow> later w w2"
| later_trusted_root: "later w w1 \<Longrightarrow> trusted_root e w1 = Some (r', w2) \<Longrightarrow> later w w2"
| later_key_mgr: "later w w1 \<Longrightarrow> key_mgr e w1 = Some (r', w2) \<Longrightarrow> later w w2"
| later_call: "later w w1 \<Longrightarrow> call e info fn signatures w1 = Some (r'', w2) \<Longrightarrow> later w w2"

definition same_caches :: "world \<Rightarrow> world \<Rightarrow> bool" where
  "same_caches w w' =
     (enabled_cache w' = enabled_cache w \<and>
      trusted_root_cache w' = trusted_root_cache w \<and>
      key_mgr_cache w' = key_mgr_cache w)"

definition caches_kept :: "world \<Rightarrow> world \<Rightarrow> bool" where
  "caches_kept w w' =
     ((\<forall>b. enabled_cache w = Some b \<longrightarrow> enabled_cache w' = Some b) \<and>
      (\<forall>r. trusted_root_cache w = Some r \<longrightarrow> trusted_root_cache w' = Some r) \<and>
      (\<forall>k. key_mgr_cache w = Some k \<longrightarrow> key_mgr_cache w' = Some k))"

text \<open>The name under which the refresh loop asks for, and stores, a document.\<close>

definition root_file :: "json \<Rightarrow> string" where
  "root_file d = (case version d of Inl _ \<Rightarrow> [] | Inr v \<Rightarrow> root_fname v)"

text \<open>
  The server delivers the chain \<open>docs\<close> after \<open>cur\<close>, from request number \<open>t\<close> on:
  each document is what the request for the next version returns, carries that version,
  and passes \<open>verify_root\<close> against its predecessor.
\<close>

fun serves :: "env \<Rightarrow> nat \<Rightarrow> json \<Rightarrow> json list \<Rightarrow> bool" where
  "serves e t cur [] = True"
| "serves e t cur (d # ds) =
     (case next_version cur of
        Inl _ \<Rightarrow> False
      | Inr n \<Rightarrow>
          fetch_outcome e t (root_fname n) = Inr d \<and>
          cct_installed e \<and> verify_root e cur d = None \<and>
          version d = Inr n \<and>
          serves e (Suc t) d ds)"

text \<open>
  The pass of the loop for \<open>cur\<close> that sends request number \<open>t\<close> fails: the request
  raises, or \<open>verify_root\<close> does. The result is the exception and what the pass leaves in
  the trace before the \<open>except\<close> clause runs.
\<close>

definition halts :: "env \<Rightarrow> nat \<Rightarrow> json \<Rightarrow> (exn \<times> event list) option" where
  "halts e t cur =
     (case next_version cur of
        Inl _ \<Rightarrow> None
      | Inr n \<Rightarrow>
          (case fetch_outcome e t (root_fname n) of
             Inl x \<Rightarrow> Some (x, [Get (root_fname n)])
           | Inr untrusted \<Rightarrow>
               if \<not> cct_installed e then Some (NameError, [Get (root_fname n)])
               else
                 (case verify_root e cur untrusted of
                    Some x \<Rightarrow> Some (x, [Get (root_fname n), VerifyRoot cur untrusted])
                  | None \<Rightarrow> None)))"

text \<open>What one pass of the loop that adopts \<open>d\<close> after \<open>cur\<close> leaves in the trace.\<close>

fun chain_events :: "json \<Rightarrow> json list \<Rightarrow> event list" where
  "chain_events cur [] = []"
| "chain_events cur (d # ds) =
     [Get (root_file d), VerifyRoot cur d, Write (root_file d) d] @ chain_events d ds"

text \<open>Reading a decimal numeral back, to tell the names of different versions apart.\<close>

definition digit_val :: "char \<Rightarrow> nat" where
  "digit_val c = length (takeWhile (\<lambda>d. d \<noteq> c) ''0123456789'')"

definition nat_of_digits :: "string \<Rightarrow> nat" where
  "nat_of_digits s = foldl (\<lambda>a c. 10 * a + digit_val c) 0 s"

definition int_of_str :: "string \<Rightarrow> int" where
  "int_of_str s =
     (case s of
        [] \<Rightarrow> 0
      | c # cs \<Rightarrow> if c = CHR ''-'' then - int (nat_of_digits cs) else int (nat_of_digits s))"

section \<open>A concrete server, configuration and directory\<close>

definition root_doc :: "int \<Rightarrow> json" where
  "root_doc v = JObj [(''signed'', JObj [(''version'', JInt v)]), (''signatures'', JObj [])]"

definition example_key_mgr :: json where
  "example_key_mgr = JObj [(''signed'', JObj [(''delegations'', JObj [])]), (''signatures'', JObj [])]"

text \<open>A \<open>verify_root\<close> that accepts exactly the next version.\<close>

definition example_verify_root :: "json \<Rightarrow> json \<Rightarrow> exn option" where
  "example_verify_root trusted untrusted =
     (case (next_version trusted, version untrusted) of
        (Inr n, Inr v) \<Rightarrow> if v = n then None else Some SignatureError
      | _ \<Rightarrow> Some SignatureError)"

text \<open>A server that has versions 2 and 3 of the root and a key manager document.\<close>

definition example_session :: "nat \<Rightarrow> string option \<Rightarrow> string \<Rightarrow> exn + response" where
  "example_session t base filename =
     (if filename = ''2.root.json'' then Inr (Response 200 (Some (root_doc 2)))
      else if filename = ''3.root.json'' then Inr (Response 200 (Some (root_doc 3)))
      else if filename = ''key_mgr.json'' then Inr (Response 200 (Some example_key_mgr))
      else Inr (Response 404 None))"

definition example_env :: env where
  "example_env =
     \<lparr> extra_safety_checks = True,
       signing_metadata_url_base = Some ''https://repo.example.org/sig'',
       av_data_dir = ''/av'',
       cct_installed = True,
       INITIAL_TRUST_ROOT = root_doc 1,
       verify_root = example_verify_root,
       verify_delegation = (\<lambda>role untrusted trusted. None),
       wrap_as_signable = (\<lambda>obj. Inr (JObj [(''signatures'', JObj []), (''signed'', obj)])),
       session_get = example_session \<rparr>"

text \<open>An empty verification directory, nothing requested, nothing cached.\<close>

definition example_world :: world where
  "example_world =
     \<lparr> av_dir = Some [], requests = 0, trace = [],
       enabled_cache = None, trusted_root_cache = None, key_mgr_cache = None \<rparr>"

text \<open>The worlds the three properties leave when first evaluated there.\<close>

definition after_enabled :: world where
  "after_enabled = snd (the (enabled example_env example_world))"

definition after_trusted_root :: world where
  "after_trusted_root = snd (the (trusted_root example_env example_world))"

definition after_key_mgr :: world where
  "after_key_mgr = snd (the (key_mgr example_env example_world))"

definition example_info :: "(string \<times> json) list" where
  "example_info = [(''name'', JStr ''foo''), (''version'', JStr ''1.0'')]"

definition example_signatures :: "(string \<times> json) list" where
  "example_signatures = [(''foo.tar.bz2'', JObj [(''key1'', JObj [(''signature'', JStr ''ab'')])])]"

definition example_envelope :: json where
  "example_envelope =
     JObj [(''signatures'', JObj [(''key1'', JObj [(''signature'', JStr ''ab'')])]),
           (''signed'', JObj example_info)]"

definition rejecting_env :: "exn \<Rightarrow> env" where
  "rejecting_env x =
     example_env\<lparr>verify_delegation :=
       (\<lambda>role untrusted trusted. if role = ''pkg_mgr'' then Some x else None)\<rparr>"

text \<open>A configuration under which every request fails to connect.\<close>

definition offline_env :: env where
  "offline_env = example_env\<lparr>session_get := (\<lambda>t base filename. Inl ConnectionError)\<rparr>"

text \<open>Worlds met when the server cannot be reached.\<close>

definition offline_after_root :: world where
  "offline_after_root = snd (the (trusted_root offline_env example_world))"

definition offline_after_key_mgr :: world where
  "offline_after_key_mgr = snd (the (key_mgr offline_env offline_after_root))"

text \<open>
  A configuration under which every request fails with the connection error of the HTTP
  client, and a directory that holds a key manager document from an earlier run.
\<close>

definition client_error_env :: env where
  "client_error_env =
     example_env\<lparr>session_get :=
       (\<lambda>t base filename. Inl (OtherException ''requests.exceptions.ConnectionError''))\<rparr>"

definition cached_key_mgr_world :: world where
  "cached_key_mgr_world = example_world\<lparr>av_dir := Some [(''key_mgr.json'', example_key_mgr)]\<rparr>"

text \<open>A directory whose newest cached root is the empty object.\<close>

definition malformed_root_world :: world where
  "malformed_root_world = example_world\<lparr>av_dir := Some [(''5.root.json'', JObj [])]\<rparr>"

text \<open>A server whose version 3 of the root does not carry version 3.\<close>

definition tampered_env :: env where
  "tampered_env =
     example_env\<lparr>session_get :=
       (\<lambda>t base filename.
          if filename = ''2.root.json'' then Inr (Response 200 (Some (root_doc 2)))
          else if filename = ''3.root.json'' then Inr (Response 200 (Some (root_doc 7)))
          else Inr (Response 500 None))\<rparr>"

section \<open>Basic facts\<close>

lemma emit_fields [simp]:
  "av_dir (emit ev w) = av_dir w"
  "requests (emit ev w) = requests w"
  "trace (emit ev w) = trace w @ [ev]"
  "enabled_cache (emit ev w) = enabled_cache w"
  "trusted_root_cache (emit ev w) = trusted_root_cache w"
  "key_mgr_cache (emit ev w) = key_mgr_cache w"
  by (simp_all add: emit_def)

lemma log_fields [simp]:
  "av_dir (log l m w) = av_dir w"
  "requests (log l m w) = requests w"
  "trace (log l m w) = trace w @ [Log l m]"
  "enabled_cache (log l m w) = enabled_cache w"
  "trusted_root_cache (log l m w) = trusted_root_cache w"
  "key_mgr_cache (log l m w) = key_mgr_cache w"
  by (simp_all add: log_def)

lemma refresh_failed_fields [simp]:
  "av_dir (refresh_failed x w) = av_dir w"
  "requests (refresh_failed x w) = requests w"
  "enabled_cache (refresh_failed x w) = enabled_cache w"
  "trusted_root_cache (refresh_failed x w) = trusted_root_cache w"
  "key_mgr_cache (refresh_failed x w) = key_mgr_cache w"
  by (simp_all add: refresh_failed_def split: exn.splits)

lemma makedirs_fields [simp]:
  "av_dir (makedirs w) = Some []"
  "requests (makedirs w) = requests w"
  "trace (makedirs w) = trace w @ [MakeDirs]"
  "enabled_cache (makedirs w) = enabled_cache w"
  "trusted_root_cache (makedirs w) = trusted_root_cache w"
  "key_mgr_cache (makedirs w) = key_mgr_cache w"
  by (simp_all add: makedirs_def)

subsection \<open>No operation clears a cache cell\<close>

lemma caches_kept_refl [simp]: "caches_kept w w"
  by (simp add: caches_kept_def)

lemma caches_kept_trans: "caches_kept w w1 \<Longrightarrow> caches_kept w1 w2 \<Longrightarrow> caches_kept w w2"
  by (simp add: caches_kept_def)

lemma fetch_caches: "fetch_channel_signing_data e f w = (r, w1) \<Longrightarrow> same_caches w w1"
  by (auto simp: fetch_channel_signing_data_def same_caches_def)

lemma load_caches: "load_metadata_from_file e f w = (r, w1) \<Longrightarrow> same_caches w w1"
  by (auto simp: load_metadata_from_file_def same_caches_def split: if_splits option.splits)

lemma write_caches: "write_metadata_to_file e d f w = (r, w1) \<Longrightarrow> same_caches w w1"
  by (auto simp: write_metadata_to_file_def same_caches_def split: if_splits option.splits)

lemma start_root_caches: "start_root e w = (r, w1) \<Longrightarrow> same_caches w w1"
  by (auto simp: start_root_def Let_def same_caches_def split: option.splits dest!: load_caches)

lemma refresh_caches:
  assumes "refresh e t w = Some y"
  shows "same_caches w (snd y)"
  using assms
proof (rule refresh.raw_induct [rotated, where P = "\<lambda>e t w y. same_caches w (snd y)"])
  fix f e trusted w y
  assume IH: "\<And>e t w y. f e t w = Some y \<Longrightarrow> same_caches w (snd y)"
    and step: "(case next_version trusted of
        Inl x \<Rightarrow> Some (Inl x, w)
      | Inr n \<Rightarrow>
          (case fetch_channel_signing_data e (root_fname n) w of
             (Inl x, w1) \<Rightarrow> Some (Inr trusted, refresh_failed x w1)
           | (Inr untrusted, w1) \<Rightarrow>
               if \<not> cct_installed e then Some (Inr trusted, refresh_failed NameError w1)
               else
                 (case verify_root e trusted untrusted of
                    Some x \<Rightarrow>
                      Some (Inr trusted, refresh_failed x (emit (VerifyRoot trusted untrusted) w1))
                  | None \<Rightarrow>
                      (case write_metadata_to_file e untrusted (root_fname n)
                              (emit (VerifyRoot trusted untrusted) w1) of
                         (Inl x, w2) \<Rightarrow> Some (Inl x, w2)
                       | (Inr _, w2) \<Rightarrow> f e untrusted w2)))) = Some y"
  from step show "same_caches w (snd y)"
    by (auto split: sum.splits prod.splits if_splits option.splits
        dest!: fetch_caches write_caches IH simp: same_caches_def)
qed

lemma trusted_root_body_caches: "trusted_root_body e w = Some (r, w1) \<Longrightarrow> same_caches w w1"
  by (auto simp: trusted_root_body_def same_caches_def split: prod.splits sum.splits
      dest!: start_root_caches refresh_caches)

lemma trusted_root_kept: "trusted_root e w = Some (r, w1) \<Longrightarrow> caches_kept w w1"
  by (auto simp: trusted_root_def caches_kept_def same_caches_def
      split: option.splits prod.splits sum.splits dest!: trusted_root_body_caches)

lemma key_mgr_except_caches: "key_mgr_except x w = (r, w1) \<Longrightarrow> same_caches w w1"
  by (auto simp: key_mgr_except_def same_caches_def split: exn.splits)

lemma key_mgr_refresh_kept: "key_mgr_refresh e w = Some (r, w1) \<Longrightarrow> caches_kept w w1"
  by (auto simp: key_mgr_refresh_def caches_kept_def same_caches_def
      split: option.splits prod.splits sum.splits if_splits
      dest!: fetch_caches trusted_root_kept key_mgr_except_caches write_caches)

lemma key_mgr_body_kept: "key_mgr_body e w = Some (r, w1) \<Longrightarrow> caches_kept w w1"
  by (auto simp: key_mgr_body_def caches_kept_def same_caches_def
      split: option.splits prod.splits sum.splits if_splits
      dest!: key_mgr_refresh_kept load_caches)

lemma key_mgr_kept: "key_mgr e w = Some (r, w1) \<Longrightarrow> caches_kept w w1"
  by (auto simp: key_mgr_def caches_kept_def split: option.splits prod.splits sum.splits
      dest!: key_mgr_body_kept)

lemma enabled_body_kept: "enabled_body e w = Some (r, w1) \<Longrightarrow> caches_kept w w1"
  by (auto simp: enabled_body_def ensure_av_dir_def caches_kept_def
      split: option.splits prod.splits sum.splits if_splits
      dest!: trusted_root_kept key_mgr_kept)

lemma enabled_kept: "enabled e w = Some (r, w1) \<Longrightarrow> caches_kept w w1"
  by (auto simp: enabled_def caches_kept_def split: option.splits prod.splits sum.splits
      dest!: enabled_body_kept)

lemma call_except_caches: "call_except fn x w = (r, w1) \<Longrightarrow> same_caches w w1"
  by (auto simp: call_except_def same_caches_def split: exn.splits)

lemma call_try_kept: "call_try e fn envelope w = Some (r, w1) \<Longrightarrow> caches_kept w w1"
  by (auto simp: call_try_def caches_kept_def same_caches_def
      split: option.splits prod.splits sum.splits if_splits
      dest!: key_mgr_kept call_except_caches)

lemma call_kept: "call e info fn signatures w = Some (r, w1) \<Longrightarrow> caches_kept w w1"
  by (auto simp: call_def caches_kept_def
      split: option.splits prod.splits sum.splits if_splits
      dest!: enabled_kept call_try_kept)

lemma later_kept: "later w w' \<Longrightarrow> caches_kept w w'"
  by (induction rule: later.induct)
     (auto intro: caches_kept_trans enabled_kept trusted_root_kept key_mgr_kept call_kept)

lemma enabled_stores: "enabled e w = Some (Inr b, w1) \<Longrightarrow> enabled_cache w1 = Some b"
  by (auto simp: enabled_def split: option.splits prod.splits sum.splits)

lemma trusted_root_stores: "trusted_root e w = Some (Inr r, w1) \<Longrightarrow> trusted_root_cache w1 = Some r"
  by (auto simp: trusted_root_def split: option.splits prod.splits sum.splits)

lemma key_mgr_stores: "key_mgr e w = Some (Inr k, w1) \<Longrightarrow> key_mgr_cache w1 = Some k"
  by (auto simp: key_mgr_def split: option.splits prod.splits sum.splits)

section \<open>Memoisation\<close>

text \<open>
  C8. Once \<open>enabled\<close>, \<open>trusted_root\<close> or \<open>key_mgr\<close> has returned a value, every later
  evaluation of that property in the process, whatever else the singleton was used for in
  between, returns the same value and leaves the world exactly as it found it: no
  request, no directory scan, no write, no log record.
\<close>

theorem memoized_results_are_reused:
  "(enabled e w = Some (Inr b, wa) \<and> later wa wb \<longrightarrow> enabled e' wb = Some (Inr b, wb)) \<and>
   (trusted_root e w = Some (Inr r, wa) \<and> later wa wb \<longrightarrow> trusted_root e' wb = Some (Inr r, wb)) \<and>
   (key_mgr e w = Some (Inr k, wa) \<and> later wa wb \<longrightarrow> key_mgr e' wb = Some (Inr k, wb))"
proof (intro conjI impI)
  assume "enabled e w = Some (Inr b, wa) \<and> later wa wb"
  then have "enabled_cache wb = Some b"
    using enabled_stores later_kept by (fastforce simp: caches_kept_def)
  then show "enabled e' wb = Some (Inr b, wb)"
    by (simp add: enabled_def)
next
  assume "trusted_root e w = Some (Inr r, wa) \<and> later wa wb"
  then have "trusted_root_cache wb = Some r"
    using trusted_root_stores later_kept by (fastforce simp: caches_kept_def)
  then show "trusted_root e' wb = Some (Inr r, wb)"
    by (simp add: trusted_root_def)
next
  assume "key_mgr e w = Some (Inr k, wa) \<and> later wa wb"
  then have "key_mgr_cache wb = Some k"
    using key_mgr_stores later_kept by (fastforce simp: caches_kept_def)
  then show "key_mgr e' wb = Some (Inr k, wb)"
    by (simp add: key_mgr_def)
qed

theorem memoized_results_are_reused_witness:
  "enabled example_env example_world = Some (Inr True, after_enabled) \<and>
   call example_env example_info ''foo.tar.bz2'' example_signatures after_enabled =
     Some (Inr (example_info @ [(status_key, JStr status_trusted)]),
           emit (VerifyDelegation ''pkg_mgr'' example_envelope example_key_mgr) after_enabled) \<and>
   enabled example_env
       (emit (VerifyDelegation ''pkg_mgr'' example_envelope example_key_mgr) after_enabled) =
     Some (Inr True, emit (VerifyDelegation ''pkg_mgr'' example_envelope example_key_mgr) after_enabled) \<and>
   trusted_root example_env example_world = Some (Inr (root_doc 3), after_trusted_root) \<and>
   trusted_root example_env after_trusted_root = Some (Inr (root_doc 3), after_trusted_root) \<and>
   key_mgr example_env example_world = Some (Inr example_key_mgr, after_key_mgr) \<and>
   key_mgr example_env after_key_mgr = Some (Inr example_key_mgr, after_key_mgr)"
proof -
  let ?wb = "emit (VerifyDelegation ''pkg_mgr'' example_envelope example_key_mgr) after_enabled"
  have 1: "enabled example_env example_world = Some (Inr True, after_enabled)"
    by code_simp
  have 2: "trusted_root example_env example_world = Some (Inr (root_doc 3), after_trusted_root)"
    by code_simp
  have 3: "key_mgr example_env example_world = Some (Inr example_key_mgr, after_key_mgr)"
    by code_simp
  have 4: "call example_env example_info ''foo.tar.bz2'' example_signatures after_enabled =
     Some (Inr (example_info @ [(status_key, JStr status_trusted)]), ?wb)"
    by code_simp
  have l: "later after_enabled ?wb"
    using later_call [OF later_refl 4] .
  show ?thesis
    using 1 2 3 4 l
      memoized_results_are_reused [where e = example_env and w = example_world and b = True
        and wa = after_enabled and wb = ?wb and e' = example_env]
      memoized_results_are_reused [where e = example_env and w = example_world and r = "root_doc 3"
        and wa = after_trusted_root and wb = after_trusted_root and e' = example_env]
      memoized_results_are_reused [where e = example_env and w = example_world and k = example_key_mgr
        and wa = after_key_mgr and wb = after_key_mgr and e' = example_env]
    by (simp add: later_refl)
qed

section \<open>The starting candidate\<close>

text \<open>
  C2. With \<open>9.root.json\<close> and \<open>10.root.json\<close> in the verification directory the
  candidate the loop starts from is the content of \<open>9.root.json\<close>: the names are sorted
  as strings, and \<open>"9..."\<close> sorts after \<open>"10..."\<close>.
\<close>

theorem start_root_sorts_names_as_strings:
  "start_root example_env
     (example_world\<lparr>av_dir := Some [(''9.root.json'', root_doc 9), (''10.root.json'', root_doc 10)]\<rparr>) =
   (Inr (root_doc 9),
    \<lparr> av_dir = Some [(''9.root.json'', root_doc 9), (''10.root.json'', root_doc 10)],
      requests = 0,
      trace = [Glob, Log INFO (Msg ''Loading root metadata from /av/9.root.json.''),
               Load ''9.root.json''],
      enabled_cache = None, trusted_root_cache = None, key_mgr_cache = None \<rparr>)"
  by code_simp

section \<open>Verifying one package\<close>

text \<open>
  C6. With \<open>enabled\<close> true and an entry for \<open>fn\<close> in \<open>signatures\<close>, \<open>__call__\<close>
  verifies the envelope against the key manager: when \<open>verify_delegation\<close> returns, the
  trusted status is recorded; when it raises \<open>SignatureError\<close>, a warning is logged, the
  failed status is recorded and the call returns normally; any other exception leaves
  the call as it is. With \<open>enabled\<close> false, or without an entry, \<open>info\<close> is returned as
  it was.
\<close>

theorem call_outcomes:
  "(cct_installed e \<and> enabled e w = Some (Inr True, wa) \<and> map_of signatures fn = Some sigs \<and>
    wrap_as_signable e (JObj info) = Inr wrapped \<and>
    setitem wrapped ''signatures'' sigs = Inr envelope \<and>
    key_mgr e wa = Some (Inr km, wb) \<longrightarrow>
      (verify_delegation e ''pkg_mgr'' envelope km = None \<longrightarrow>
         call e info fn signatures w =
           Some (Inr (AList.update status_key (JStr status_trusted) info),
                 emit (VerifyDelegation ''pkg_mgr'' envelope km) wb)) \<and>
      (verify_delegation e ''pkg_mgr'' envelope km = Some SignatureError \<longrightarrow>
         call e info fn signatures w =
           Some (Inr (AList.update status_key (JStr status_failed) info),
                 log WARN (Msg (''invalid signature for '' @ fn))
                   (emit (VerifyDelegation ''pkg_mgr'' envelope km) wb))) \<and>
      (verify_delegation e ''pkg_mgr'' envelope km = Some x \<and> x \<noteq> SignatureError \<longrightarrow>
         call e info fn signatures w =
           Some (Inl x, emit (VerifyDelegation ''pkg_mgr'' envelope km) wb))) \<and>
   (enabled e w = Some (Inr False, wa) \<longrightarrow> call e info fn signatures w = Some (Inr info, wa)) \<and>
   (enabled e w = Some (Inr en, wa) \<and> map_of signatures fn = None \<longrightarrow>
      call e info fn signatures w = Some (Inr info, wa))"
  by (cases x) (simp_all add: call_def call_try_def call_except_def)

theorem call_outcomes_witness:
  "call example_env example_info ''foo.tar.bz2'' example_signatures example_world =
     Some (Inr (example_info @ [(status_key, JStr status_trusted)]),
           emit (VerifyDelegation ''pkg_mgr'' example_envelope example_key_mgr) after_enabled) \<and>
   call (rejecting_env SignatureError) example_info ''foo.tar.bz2'' example_signatures example_world =
     Some (Inr (example_info @ [(status_key, JStr status_failed)]),
           log WARN (Msg ''invalid signature for foo.tar.bz2'')
             (emit (VerifyDelegation ''pkg_mgr'' example_envelope example_key_mgr) after_enabled)) \<and>
   call (rejecting_env TypeError) example_info ''foo.tar.bz2'' example_signatures example_world =
     Some (Inl TypeError,
           emit (VerifyDelegation ''pkg_mgr'' example_envelope example_key_mgr) after_enabled) \<and>
   call (example_env\<lparr>extra_safety_checks := False\<rparr>) example_info ''foo.tar.bz2''
        example_signatures example_world =
     Some (Inr example_info, example_world\<lparr>enabled_cache := Some False\<rparr>) \<and>
   call example_env example_info ''bar.tar.bz2'' example_signatures example_world =
     Some (Inr example_info, after_enabled)"
proof -
  let ?sigs = "JObj [(''key1'', JObj [(''signature'', JStr ''ab'')])]"
  let ?wrapped = "JObj [(''signatures'', JObj []), (''signed'', JObj example_info)]"
  have en: "enabled example_env example_world = Some (Inr True, after_enabled)"
    "enabled (rejecting_env SignatureError) example_world = Some (Inr True, after_enabled)"
    "enabled (rejecting_env TypeError) example_world = Some (Inr True, after_enabled)"
    "enabled (example_env\<lparr>extra_safety_checks := False\<rparr>) example_world =
       Some (Inr False, example_world\<lparr>enabled_cache := Some False\<rparr>)"
    by code_simp+
  have km: "key_mgr example_env after_enabled = Some (Inr example_key_mgr, after_enabled)"
    "key_mgr (rejecting_env SignatureError) after_enabled = Some (Inr example_key_mgr, after_enabled)"
    "key_mgr (rejecting_env TypeError) after_enabled = Some (Inr example_key_mgr, after_enabled)"
    by code_simp+
  have sg: "map_of example_signatures ''foo.tar.bz2'' = Some ?sigs"
    "map_of example_signatures ''bar.tar.bz2'' = None"
    "setitem ?wrapped ''signatures'' ?sigs = Inr example_envelope"
    by (simp_all add: example_signatures_def setitem_def example_envelope_def)
  have ex: "cct_installed example_env" "wrap_as_signable example_env (JObj example_info) = Inr ?wrapped"
    "verify_delegation example_env ''pkg_mgr'' example_envelope example_key_mgr = None"
    by (simp_all add: example_env_def)
  have rj: "cct_installed (rejecting_env x)"
    "wrap_as_signable (rejecting_env x) (JObj example_info) = Inr ?wrapped"
    "verify_delegation (rejecting_env x) ''pkg_mgr'' example_envelope example_key_mgr = Some x" for x
    by (simp_all add: rejecting_env_def example_env_def)
  have up: "AList.update status_key v example_info = example_info @ [(status_key, v)]" for v
    by (simp add: example_info_def status_key_def)
  show ?thesis
    using
      call_outcomes [where e = example_env and w = example_world and wa = after_enabled
        and wb = after_enabled and signatures = example_signatures and fn = "''foo.tar.bz2''"
        and sigs = ?sigs and info = example_info and wrapped = ?wrapped
        and envelope = example_envelope and km = example_key_mgr]
      call_outcomes [where e = "rejecting_env SignatureError" and w = example_world
        and wa = after_enabled and wb = after_enabled and signatures = example_signatures
        and fn = "''foo.tar.bz2''" and sigs = ?sigs and info = example_info and wrapped = ?wrapped
        and envelope = example_envelope and km = example_key_mgr]
      call_outcomes [where e = "rejecting_env TypeError" and w = example_world
        and wa = after_enabled and wb = after_enabled and signatures = example_signatures
        and fn = "''foo.tar.bz2''" and sigs = ?sigs and info = example_info and wrapped = ?wrapped
        and envelope = example_envelope and km = example_key_mgr and x = TypeError]
      call_outcomes [where e = "example_env\<lparr>extra_safety_checks := False\<rparr>" and w = example_world
        and wa = "example_world\<lparr>enabled_cache := Some False\<rparr>" and signatures = example_signatures
        and fn = "''foo.tar.bz2''" and info = example_info]
      call_outcomes [where e = example_env and w = example_world and wa = after_enabled
        and en = True and signatures = example_signatures and fn = "''bar.tar.bz2''"
        and info = example_info]
    by (simp add: en km sg ex rj up)
qed

text \<open>
  C10. Whenever \<open>__call__\<close> returns, every key of \<open>info\<close> other than
  \<open>metadata_signature_status\<close> has the value it had before, and \<open>info\<close> is either
  untouched or has had that one key set to one of the two status strings.
\<close>

theorem call_writes_only_status_key:
  "call e info fn signatures w = Some (Inr info', w') \<Longrightarrow>
     (\<forall>k. k \<noteq> status_key \<longrightarrow> map_of info' k = map_of info k) \<and>
     (info' = info \<or>
      info' = AList.update status_key (JStr status_trusted) info \<or>
      info' = AList.update status_key (JStr status_failed) info)"
  by (auto simp: call_def call_try_def call_except_def update_conv'
      split: option.splits sum.splits prod.splits if_splits exn.splits)

theorem call_writes_only_status_key_witness:
  "call example_env example_info ''foo.tar.bz2'' example_signatures example_world =
     Some (Inr (example_info @ [(status_key, JStr status_trusted)]),
           emit (VerifyDelegation ''pkg_mgr'' example_envelope example_key_mgr) after_enabled) \<and>
   map_of (example_info @ [(status_key, JStr status_trusted)]) ''name'' = map_of example_info ''name''"
proof -
  have c: "call example_env example_info ''foo.tar.bz2'' example_signatures example_world =
     Some (Inr (example_info @ [(status_key, JStr status_trusted)]),
           emit (VerifyDelegation ''pkg_mgr'' example_envelope example_key_mgr) after_enabled)"
    by code_simp
  have k: "''name'' \<noteq> status_key"
    by (simp add: status_key_def)
  show ?thesis
    using c k call_writes_only_status_key [OF c] by blast
qed

section \<open>Refreshing the trusted root\<close>

subsection \<open>File names of different versions differ\<close>

lemma digit_val_digit_char: "k < 10 \<Longrightarrow> digit_val (digit_char k) = k"
proof -
  assume "k < 10"
  then consider "k = 0" | "k = 1" | "k = 2" | "k = 3" | "k = 4" | "k = 5" | "k = 6" | "k = 7"
    | "k = 8" | "k = 9"
    by atomize_elim presburger
  then show ?thesis
    by cases (simp_all add: digit_val_def digit_char_def)
qed

lemma digit_char_not_minus: "k < 10 \<Longrightarrow> digit_char k \<noteq> CHR ''-''"
proof -
  assume "k < 10"
  then consider "k = 0" | "k = 1" | "k = 2" | "k = 3" | "k = 4" | "k = 5" | "k = 6" | "k = 7"
    | "k = 8" | "k = 9"
    by atomize_elim presburger
  then show ?thesis
    by cases (simp_all add: digit_char_def)
qed

lemma nat_of_digits_snoc: "nat_of_digits (s @ [c]) = 10 * nat_of_digits s + digit_val c"
  by (simp add: nat_of_digits_def)

lemma nat_of_digits_str_nat: "nat_of_digits (str_nat n) = n"
proof (induction n rule: str_nat.induct)
  case (1 n)
  show ?case
  proof (cases "n < 10")
    case True
    then show ?thesis
      by (simp add: str_nat.simps [of n] nat_of_digits_def digit_val_digit_char)
  next
    case False
    then show ?thesis
      using 1 by (simp add: str_nat.simps [of n] nat_of_digits_snoc digit_val_digit_char)
  qed
qed

lemma str_nat_hd: "\<exists>c cs. str_nat n = c # cs \<and> c \<noteq> CHR ''-''"
proof (induction n rule: str_nat.induct)
  case (1 n)
  show ?case
  proof (cases "n < 10")
    case True
    then show ?thesis
      by (simp add: str_nat.simps [of n] digit_char_not_minus)
  next
    case False
    then show ?thesis
      using 1 by (auto simp: str_nat.simps [of n])
  qed
qed

lemma int_of_str_str_int: "int_of_str (str_int i) = i"
proof (cases "i < 0")
  case True
  then show ?thesis
    by (simp add: int_of_str_def str_int_def nat_of_digits_str_nat)
next
  case False
  obtain c cs where "str_nat (nat i) = c # cs" "c \<noteq> CHR ''-''"
    using str_nat_hd by blast
  with False show ?thesis
    using nat_of_digits_str_nat [of "nat i"] by (simp add: int_of_str_def str_int_def)
qed

lemma root_fname_inj: "root_fname i = root_fname j \<Longrightarrow> i = j"
  by (metis append_same_eq int_of_str_str_int root_fname_def)

subsection \<open>The refresh loop along a chain\<close>

lemma refresh_halts:
  "halts e (requests w) cur = Some (x, evs) \<Longrightarrow>
   refresh e cur w =
     Some (Inr cur, refresh_failed x (w\<lparr>requests := Suc (requests w), trace := trace w @ evs\<rparr>))"
  by (subst refresh.simps)
     (auto simp: halts_def fetch_channel_signing_data_def emit_def
        split: sum.splits if_splits option.splits)

lemma serves_root_file:
  "serves e t cur (d # ds) \<Longrightarrow> next_version cur = Inr n \<Longrightarrow> root_file d = root_fname n"
  by (simp add: root_file_def)

lemma refresh_adopts:
  assumes "serves e (requests w) cur (d # ds)" and "av_dir w = Some fs"
  shows "refresh e cur w =
     refresh e d
       (w\<lparr>av_dir := Some (AList.update (root_file d) d fs),
          requests := Suc (requests w),
          trace := trace w @ [Get (root_file d), VerifyRoot cur d, Write (root_file d) d]\<rparr>)"
proof -
  from assms(1) obtain n where n: "next_version cur = Inr n"
    and f: "fetch_outcome e (requests w) (root_fname n) = Inr d"
    and c: "cct_installed e" and v: "verify_root e cur d = None" and vd: "version d = Inr n"
    by (auto split: sum.splits)
  let ?w = "emit (Write (root_fname n) d)
              ((emit (VerifyRoot cur d) (emit (Get (root_fname n)) (w\<lparr>requests := Suc (requests w)\<rparr>)))
                 \<lparr>av_dir := Some (AList.update (root_fname n) d fs)\<rparr>)"
  have "refresh e cur w = refresh e d ?w"
    by (subst refresh.simps)
       (simp add: n f c v assms(2) fetch_channel_signing_data_def write_metadata_to_file_def)
  moreover have "?w = w\<lparr>av_dir := Some (AList.update (root_file d) d fs),
          requests := Suc (requests w),
          trace := trace w @ [Get (root_file d), VerifyRoot cur d, Write (root_file d) d]\<rparr>"
    by (rule world.equality) (simp_all add: emit_def root_file_def vd)
  ultimately show ?thesis
    by simp
qed

lemma refresh_chain:
  "serves e (requests w) cur docs \<Longrightarrow> av_dir w = Some fs \<Longrightarrow>
   halts e (requests w + length docs) (last (cur # docs)) = Some (x, evs) \<Longrightarrow>
   refresh e cur w =
     Some (Inr (last (cur # docs)),
           refresh_failed x
             (w\<lparr>av_dir := Some (fold (\<lambda>d. AList.update (root_file d) d) docs fs),
                requests := Suc (requests w + length docs),
                trace := trace w @ chain_events cur docs @ evs\<rparr>))"
proof (induction docs arbitrary: cur w fs)
  case Nil
  have eq: "w\<lparr>av_dir := Some fs, requests := Suc (requests w), trace := trace w @ evs\<rparr> =
        w\<lparr>requests := Suc (requests w), trace := trace w @ evs\<rparr>"
    using Nil.prems(2) by (intro world.equality) simp_all
  from Nil.prems(3) have "halts e (requests w) cur = Some (x, evs)"
    by simp
  then show ?case
    by (simp add: refresh_halts eq)
next
  case (Cons d ds)
  let ?w = "w\<lparr>av_dir := Some (AList.update (root_file d) d fs),
              requests := Suc (requests w),
              trace := trace w @ [Get (root_file d), VerifyRoot cur d, Write (root_file d) d]\<rparr>"
  let ?fs = "Some (fold (\<lambda>d. AList.update (root_file d) d) (d # ds) fs)"
  have step: "refresh e cur w = refresh e d ?w"
    using Cons.prems(1,2) by (rule refresh_adopts)
  have s: "serves e (requests ?w) d ds"
    using Cons.prems(1) by (simp split: sum.splits)
  have h: "halts e (requests ?w + length ds) (last (d # ds)) = Some (x, evs)"
    using Cons.prems(3) by simp
  have a: "av_dir ?w = Some (AList.update (root_file d) d fs)"
    by simp
  have "?w\<lparr>av_dir := Some (fold (\<lambda>d. AList.update (root_file d) d) ds (AList.update (root_file d) d fs)),
            requests := Suc (requests ?w + length ds),
            trace := trace ?w @ chain_events d ds @ evs\<rparr> =
        w\<lparr>av_dir := ?fs, requests := Suc (requests w + length (d # ds)),
          trace := trace w @ chain_events cur (d # ds) @ evs\<rparr>"
    by (intro world.equality) simp_all
  then show ?case
    unfolding step using Cons.IH [OF s a h] by simp
qed

lemma update_fresh: "k \<notin> fst ` set al \<Longrightarrow> AList.update k v al = al @ [(k, v)]"
  by (induction al) auto

lemma serves_version:
  "serves e t cur (d # ds) \<Longrightarrow> \<exists>v. version cur = Inr v \<and> version d = Inr (v + 1)"
  by (auto simp: next_version_def split: sum.splits)

lemma fold_update_chain:
  "serves e t cur docs \<Longrightarrow> version cur = Inr v \<Longrightarrow>
   \<forall>k \<in> fst ` set fs. \<exists>j \<le> v. k = root_fname j \<Longrightarrow>
   fold (\<lambda>d. AList.update (root_file d) d) docs fs = fs @ map (\<lambda>d. (root_file d, d)) docs"
proof (induction docs arbitrary: t cur v fs)
  case Nil
  then show ?case by simp
next
  case (Cons d ds)
  from Cons.prems(1,2) have vd: "version d = Inr (v + 1)"
    using serves_version by fastforce
  then have rf: "root_file d = root_fname (v + 1)"
    by (simp add: root_file_def)
  have fresh: "root_file d \<notin> fst ` set fs"
  proof
    assume "root_file d \<in> fst ` set fs"
    then obtain j where "j \<le> v" "root_file d = root_fname j"
      using Cons.prems(3) by blast
    then show False
      using rf root_fname_inj by fastforce
  qed
  have s: "serves e (Suc t) d ds"
    using Cons.prems(1) by (simp split: sum.splits)
  have inv: "\<forall>k \<in> fst ` set (fs @ [(root_file d, d)]). \<exists>j \<le> v + 1. k = root_fname j"
  proof
    fix k
    assume "k \<in> fst ` set (fs @ [(root_file d, d)])"
    then consider "k \<in> fst ` set fs" | "k = root_file d"
      by auto
    then show "\<exists>j \<le> v + 1. k = root_fname j"
    proof cases
      case 1
      then obtain j where "j \<le> v" "k = root_fname j"
        using Cons.prems(3) by blast
      then show ?thesis
        by (intro exI [of _ j]) simp
    next
      case 2
      then show ?thesis
        using rf by (intro exI [of _ "v + 1"]) simp
    qed
  qed
  show ?case
    using Cons.IH [OF s vd inv] by (simp add: update_fresh [OF fresh])
qed

lemma chain_events_writes:
  "serves e t cur docs \<Longrightarrow> version cur = Inr v \<Longrightarrow>
   Write name d \<in> set (chain_events cur docs) \<Longrightarrow>
   \<exists>j. v < j \<and> j \<le> v + int (length docs) \<and> name = root_fname j"
proof (induction docs arbitrary: t cur v)
  case Nil
  then show ?case by simp
next
  case (Cons a ds)
  from Cons.prems(1,2) have va: "version a = Inr (v + 1)"
    using serves_version by fastforce
  have s: "serves e (Suc t) a ds"
    using Cons.prems(1) by (simp split: sum.splits)
  from Cons.prems(3) consider "name = root_file a" | "Write name d \<in> set (chain_events a ds)"
    by auto
  then show ?case
  proof cases
    case 1
    then show ?thesis
      using va by (auto simp: root_file_def intro!: exI [of _ "v + 1"])
  next
    case 2
    from Cons.IH [OF s va 2] obtain j where "v + 1 < j" "j \<le> v + 1 + int (length ds)"
      "name = root_fname j"
      by blast
    then show ?thesis
      by (intro exI [of _ j]) simp
  qed
qed

lemma serves_last_version:
  "serves e t cur docs \<Longrightarrow> version cur = Inr v \<Longrightarrow>
   version (last (cur # docs)) = Inr (v + int (length docs))"
proof (induction docs arbitrary: t cur v)
  case Nil
  then show ?case by simp
next
  case (Cons a ds)
  from Cons.prems have va: "version a = Inr (v + 1)"
    using serves_version by fastforce
  have s: "serves e (Suc t) a ds"
    using Cons.prems(1) by (simp split: sum.splits)
  from Cons.IH [OF s va] show ?case
    by (simp add: add.assoc)
qed

lemma halts_events: "halts e t cur = Some (x, evs) \<Longrightarrow> Write name d \<notin> set evs"
  by (auto simp: halts_def split: sum.splits if_splits option.splits)

lemma start_root_keeps:
  "start_root e w = (r, ws) \<Longrightarrow> requests ws = requests w \<and> av_dir ws = av_dir w"
  by (auto simp: start_root_def Let_def load_metadata_from_file_def
      split: option.splits if_splits)

lemma start_root_empty:
  "av_dir w = Some [] \<Longrightarrow>
   start_root e w =
     (Inr (INITIAL_TRUST_ROOT e),
      log DEBUG (Msg (''No root metadata in '' @ av_data_dir e @ ''. Using built-in root metadata.''))
        (emit Glob w))"
  by (simp add: start_root_def glob_roots_def)

lemma refresh_result_has_version:
  assumes "refresh e t w = Some y"
  shows "\<forall>d. fst y = Inr d \<longrightarrow> (\<exists>m. next_version d = Inr m)"
  using assms
proof (rule refresh.raw_induct [rotated, where P = "\<lambda>e t w y. \<forall>d. fst y = Inr d \<longrightarrow> (\<exists>m. next_version d = Inr m)"])
  fix f e trusted w y
  assume IH: "\<And>e t w y. f e t w = Some y \<Longrightarrow> \<forall>d. fst y = Inr d \<longrightarrow> (\<exists>m. next_version d = Inr m)"
    and step: "(case next_version trusted of
        Inl x \<Rightarrow> Some (Inl x, w)
      | Inr n \<Rightarrow>
          (case fetch_channel_signing_data e (root_fname n) w of
             (Inl x, w1) \<Rightarrow> Some (Inr trusted, refresh_failed x w1)
           | (Inr untrusted, w1) \<Rightarrow>
               if \<not> cct_installed e then Some (Inr trusted, refresh_failed NameError w1)
               else
                 (case verify_root e trusted untrusted of
                    Some x \<Rightarrow>
                      Some (Inr trusted, refresh_failed x (emit (VerifyRoot trusted untrusted) w1))
                  | None \<Rightarrow>
                      (case write_metadata_to_file e untrusted (root_fname n)
                              (emit (VerifyRoot trusted untrusted) w1) of
                         (Inl x, w2) \<Rightarrow> Some (Inl x, w2)
                       | (Inr _, w2) \<Rightarrow> f e untrusted w2)))) = Some y"
  from step show "\<forall>d. fst y = Inr d \<longrightarrow> (\<exists>m. next_version d = Inr m)"
    by (auto split: sum.splits prod.splits if_splits option.splits dest!: IH)
qed

lemma trusted_root_result_has_version:
  "trusted_root_cache w = None \<Longrightarrow> trusted_root e w = Some (Inr d, wa) \<Longrightarrow>
   \<exists>m. next_version d = Inr m"
  by (auto simp: trusted_root_def trusted_root_body_def
      split: option.splits sum.splits prod.splits dest!: refresh_result_has_version)

lemma next_version_JNull: "next_version JNull = Inl TypeError"
  by (simp add: next_version_def version_def getitem_def)

text \<open>
  C1. Starting from an empty verification directory and an empty cache, with a server
  that delivers the chain \<open>docs\<close> after the built-in root and answers 404 for the version
  after the last, \<open>trusted_root\<close> returns the last document of the chain. The world it
  leaves is given in full: the directory holds one file per document, in chain order,
  and the trace shows that each file is written right after \<open>verify_root\<close> was called on
  the document and its predecessor (and returned, by \<open>serves\<close>), before the next request.
\<close>

theorem resolve_from_empty_directory:
  assumes "av_dir w = Some []" and "trusted_root_cache w = None"
    and "serves e (requests w) (INITIAL_TRUST_ROOT e) docs"
    and "next_version (last (INITIAL_TRUST_ROOT e # docs)) = Inr m"
    and "fetch_outcome e (requests w + length docs) (root_fname m) = Inl (HTTPError 404)"
  shows "trusted_root e w =
     Some (Inr (last (INITIAL_TRUST_ROOT e # docs)),
           w\<lparr>av_dir := Some (map (\<lambda>d. (root_file d, d)) docs),
              requests := Suc (requests w + length docs),
              trace := trace w @
                [Glob,
                 Log DEBUG (Msg (''No root metadata in '' @ av_data_dir e @
                                 ''. Using built-in root metadata.''))] @
                chain_events (INITIAL_TRUST_ROOT e) docs @ [Get (root_fname m)],
              trusted_root_cache := Some (last (INITIAL_TRUST_ROOT e # docs))\<rparr>)"
proof -
  define init where "init = INITIAL_TRUST_ROOT e"
  define msg where
    "msg = Msg (''No root metadata in '' @ av_data_dir e @ ''. Using built-in root metadata.'')"
  define ws where "ws = log DEBUG msg (emit Glob w)"
  define final where "final = last (init # docs)"
  define wl where
    "wl = refresh_failed (HTTPError 404)
            (ws\<lparr>av_dir := Some (fold (\<lambda>d. AList.update (root_file d) d) docs []),
                requests := Suc (requests ws + length docs),
                trace := trace ws @ chain_events init docs @ [Get (root_fname m)]\<rparr>)"
  have start: "start_root e w = (Inr init, ws)"
    unfolding init_def ws_def msg_def using assms(1) by (rule start_root_empty)
  have s: "serves e (requests ws) init docs"
    using assms(3) by (simp add: ws_def init_def)
  have a: "av_dir ws = Some []"
    using assms(1) by (simp add: ws_def)
  have h: "halts e (requests ws + length docs) (last (init # docs)) =
             Some (HTTPError 404, [Get (root_fname m)])"
    using assms(4,5) by (simp add: halts_def ws_def init_def)
  have files: "fold (\<lambda>d. AList.update (root_file d) d) docs [] = map (\<lambda>d. (root_file d, d)) docs"
  proof (cases docs)
    case Nil
    then show ?thesis by simp
  next
    case (Cons d ds)
    with assms(3) obtain v where "version (INITIAL_TRUST_ROOT e) = Inr v"
      using serves_version by blast
    with assms(3) show ?thesis
      using fold_update_chain [of e "requests w" "INITIAL_TRUST_ROOT e" docs v "[]"] by simp
  qed
  have loop: "refresh e init ws = Some (Inr final, wl)"
    unfolding final_def wl_def using s a h by (rule refresh_chain)
  have "trusted_root_body e w = Some (Inr final, wl)"
    by (simp add: trusted_root_body_def start loop)
  then have "trusted_root e w = Some (Inr final, wl\<lparr>trusted_root_cache := Some final\<rparr>)"
    using assms(2) by (simp add: trusted_root_def)
  moreover have "wl\<lparr>trusted_root_cache := Some final\<rparr> =
      w\<lparr>av_dir := Some (map (\<lambda>d. (root_file d, d)) docs),
        requests := Suc (requests w + length docs),
        trace := trace w @
          [Glob,
           Log DEBUG (Msg (''No root metadata in '' @ av_data_dir e @
                           ''. Using built-in root metadata.''))] @
          chain_events (INITIAL_TRUST_ROOT e) docs @ [Get (root_fname m)],
        trusted_root_cache := Some (last (INITIAL_TRUST_ROOT e # docs))\<rparr>"
    unfolding wl_def ws_def final_def init_def msg_def
    by (intro world.equality) (simp_all add: files refresh_failed_def)
  ultimately show ?thesis
    unfolding final_def init_def by simp
qed

theorem resolve_from_empty_directory_witness:
  "trusted_root example_env example_world =
     Some (Inr (root_doc 3),
           \<lparr> av_dir = Some [(''2.root.json'', root_doc 2), (''3.root.json'', root_doc 3)],
             requests = 3,
             trace = [Glob, Log DEBUG (Msg ''No root metadata in /av. Using built-in root metadata.''),
                      Get ''2.root.json'', VerifyRoot (root_doc 1) (root_doc 2),
                      Write ''2.root.json'' (root_doc 2),
                      Get ''3.root.json'', VerifyRoot (root_doc 2) (root_doc 3),
                      Write ''3.root.json'' (root_doc 3),
                      Get ''4.root.json''],
             enabled_cache = None, trusted_root_cache = Some (root_doc 3), key_mgr_cache = None \<rparr>)"
proof -
  have h1: "av_dir example_world = Some []" and h2: "trusted_root_cache example_world = None"
    by (simp_all add: example_world_def)
  have h3: "serves example_env (requests example_world) (INITIAL_TRUST_ROOT example_env)
              [root_doc 2, root_doc 3]"
    by code_simp
  have h4: "next_version (last (INITIAL_TRUST_ROOT example_env # [root_doc 2, root_doc 3])) = Inr 4"
    by code_simp
  have h5: "fetch_outcome example_env (requests example_world + length [root_doc 2, root_doc 3])
              (root_fname 4) = Inl (HTTPError 404)"
    by code_simp
  have names: "root_file (root_doc 2) = ''2.root.json''" "root_file (root_doc 3) = ''3.root.json''"
    "root_fname 4 = ''4.root.json''"
    by code_simp+
  show ?thesis
    using resolve_from_empty_directory [OF h1 h2 h3 h4 h5]
    by (simp add: names) (simp add: example_world_def example_env_def)
qed

text \<open>
  C3. When the pass of the loop for version \<open>k\<close> fails, because the request raises
  (404 or anything else) or because \<open>verify_root\<close> raises, after the chain \<open>docs\<close> was
  adopted from the starting candidate \<open>cur\<close>, \<open>trusted_root\<close> returns normally with the
  last adopted document (version \<open>k - 1\<close>), which is also what it caches; the files it
  has written are those of \<open>docs\<close>, and none of them is the file of a version from \<open>k\<close> on.
\<close>

theorem resolve_stops_at_first_failure:
  assumes "trusted_root_cache w = None"
    and "start_root e w = (Inr cur, ws)" and "av_dir w = Some fs"
    and "serves e (requests w) cur docs"
    and "next_version (last (cur # docs)) = Inr k"
    and "halts e (requests w + length docs) (last (cur # docs)) = Some (x, evs)"
  shows "trusted_root e w =
       Some (Inr (last (cur # docs)),
             (refresh_failed x
                (ws\<lparr>av_dir := Some (fold (\<lambda>d. AList.update (root_file d) d) docs fs),
                    requests := Suc (requests w + length docs),
                    trace := trace ws @ chain_events cur docs @ evs\<rparr>))
               \<lparr>trusted_root_cache := Some (last (cur # docs))\<rparr>) \<and>
     (\<forall>n \<ge> k. \<forall>d. Write (root_fname n) d \<notin> set (chain_events cur docs @ evs))"
proof
  define final where "final = last (cur # docs)"
  define wl where
    "wl = refresh_failed x
            (ws\<lparr>av_dir := Some (fold (\<lambda>d. AList.update (root_file d) d) docs fs),
                requests := Suc (requests ws + length docs),
                trace := trace ws @ chain_events cur docs @ evs\<rparr>)"
  have keep: "requests ws = requests w" "av_dir ws = Some fs"
    using start_root_keeps [OF assms(2)] assms(3) by simp_all
  have loop: "refresh e cur ws = Some (Inr final, wl)"
    unfolding final_def wl_def using assms(4,6) keep by (intro refresh_chain) simp_all
  have "trusted_root_body e w = Some (Inr final, wl)"
    by (simp add: trusted_root_body_def assms(2) loop)
  then have "trusted_root e w = Some (Inr final, wl\<lparr>trusted_root_cache := Some final\<rparr>)"
    using assms(1) by (simp add: trusted_root_def)
  then show "trusted_root e w =
       Some (Inr (last (cur # docs)),
             (refresh_failed x
                (ws\<lparr>av_dir := Some (fold (\<lambda>d. AList.update (root_file d) d) docs fs),
                    requests := Suc (requests w + length docs),
                    trace := trace ws @ chain_events cur docs @ evs\<rparr>))
               \<lparr>trusted_root_cache := Some (last (cur # docs))\<rparr>)"
    unfolding final_def wl_def keep by simp
next
  show "\<forall>n \<ge> k. \<forall>d. Write (root_fname n) d \<notin> set (chain_events cur docs @ evs)"
  proof (intro allI impI notI)
    fix n d
    assume n: "k \<le> n" and "Write (root_fname n) d \<in> set (chain_events cur docs @ evs)"
    then have w: "Write (root_fname n) d \<in> set (chain_events cur docs)"
      using halts_events [OF assms(6)] by auto
    then obtain a ds where docs: "docs = a # ds"
      by (cases docs) auto
    with assms(4) obtain v where v: "version cur = Inr v"
      using serves_version by blast
    from chain_events_writes [OF assms(4) v w] obtain j where
      j: "j \<le> v + int (length docs)" "root_fname n = root_fname j"
      by blast
    from serves_last_version [OF assms(4) v] assms(5) have "k = v + int (length docs) + 1"
      by (simp add: next_version_def)
    with j n show False
      using root_fname_inj by fastforce
  qed
qed

theorem resolve_stops_at_first_failure_witness:
  "trusted_root tampered_env example_world =
     Some (Inr (root_doc 2),
           \<lparr> av_dir = Some [(''2.root.json'', root_doc 2)],
             requests = 2,
             trace = [Glob, Log DEBUG (Msg ''No root metadata in /av. Using built-in root metadata.''),
                      Get ''2.root.json'', VerifyRoot (root_doc 1) (root_doc 2),
                      Write ''2.root.json'' (root_doc 2),
                      Get ''3.root.json'', VerifyRoot (root_doc 2) (root_doc 7),
                      Log ERROR (Err SignatureError)],
             enabled_cache = None, trusted_root_cache = Some (root_doc 2), key_mgr_cache = None \<rparr>)"
proof -
  let ?ws = "log DEBUG (Msg ''No root metadata in /av. Using built-in root metadata.'')
               (emit Glob example_world)"
  have h1: "trusted_root_cache example_world = None" and h3: "av_dir example_world = Some []"
    by (simp_all add: example_world_def)
  have h2: "start_root tampered_env example_world = (Inr (root_doc 1), ?ws)"
    by code_simp
  have h4: "serves tampered_env (requests example_world) (root_doc 1) [root_doc 2]"
    by code_simp
  have h5: "next_version (last (root_doc 1 # [root_doc 2])) = Inr 3"
    by code_simp
  have h6: "halts tampered_env (requests example_world + length [root_doc 2])
              (last (root_doc 1 # [root_doc 2])) =
            Some (SignatureError, [Get ''3.root.json'', VerifyRoot (root_doc 2) (root_doc 7)])"
    by code_simp
  have names: "root_file (root_doc 2) = ''2.root.json''"
    by code_simp
  show ?thesis
    using resolve_stops_at_first_failure [OF h1 h2 h3 h4 h5 h6, THEN conjunct1]
    by (simp add: names refresh_failed_def) (simp add: example_world_def emit_def log_def)
qed

text \<open>
  C9, as stated, asks that \<open>trusted_root\<close> return a document for every state of the
  verification directory. With a cached \<open>5.root.json\<close> that holds \<open>{}\<close> it raises
  \<open>KeyError\<close> instead: \<open>trusted['signed']\<close> is evaluated outside the \<open>try\<close>.
\<close>

theorem trusted_root_raises_on_malformed_cache:
  "trusted_root example_env (example_world\<lparr>av_dir := Some [(''5.root.json'', JObj [])]\<rparr>) =
     Some (Inl (KeyError ''signed''),
           \<lparr> av_dir = Some [(''5.root.json'', JObj [])], requests = 0,
             trace = [Glob, Log INFO (Msg ''Loading root metadata from /av/5.root.json.''),
                      Load ''5.root.json''],
             enabled_cache = None, trusted_root_cache = None, key_mgr_cache = None \<rparr>)"
  by code_simp

text \<open>
  C9, amended. Whenever the first evaluation of \<open>trusted_root\<close> returns, what it returns
  is a document whose \<open>signed.version\<close> could be read, so never \<open>None\<close>. Hence when
  \<open>enabled\<close> has passed its three configuration checks and returns \<open>False\<close>, the last
  thing it did was to log that the key manager is missing: the branch for a missing
  trusted root is not the one taken.
\<close>

theorem trusted_root_never_absent:
  "trusted_root_cache w = None \<Longrightarrow>
   (trusted_root e w = Some (Inr d, wa) \<longrightarrow> d \<noteq> JNull \<and> (\<exists>m. next_version d = Inr m)) \<and>
   (enabled_cache w = None \<and> enabled e w = Some (Inr False, wb) \<and>
    extra_safety_checks e \<and> \<not> url_base_unset e \<and> cct_installed e \<longrightarrow>
      last (trace wb) =
        Log WARN (Msg ''could not find key_mgr data for metadata signature verification''))"
proof (intro conjI impI)
  assume c: "trusted_root_cache w = None" and r: "trusted_root e w = Some (Inr d, wa)"
  from trusted_root_result_has_version [OF c r] show "\<exists>m. next_version d = Inr m" .
  then show "d \<noteq> JNull"
    using next_version_JNull by auto
next
  assume c: "trusted_root_cache w = None"
    and en: "enabled_cache w = None \<and> enabled e w = Some (Inr False, wb) \<and>
      extra_safety_checks e \<and> \<not> url_base_unset e \<and> cct_installed e"
  have c': "trusted_root_cache (ensure_av_dir w) = None"
    using c by (simp add: ensure_av_dir_def)
  have "root \<noteq> JNull" if "trusted_root e (ensure_av_dir w) = Some (Inr root, w')" for root w'
    using trusted_root_result_has_version [OF c' that] next_version_JNull by auto
  with en show "last (trace wb) =
      Log WARN (Msg ''could not find key_mgr data for metadata signature verification'')"
    by (auto simp: enabled_def enabled_body_def
        split: option.splits sum.splits prod.splits if_splits)
qed

theorem trusted_root_never_absent_witness:
  "trusted_root example_env example_world = Some (Inr (root_doc 3), after_trusted_root) \<and>
   root_doc 3 \<noteq> JNull \<and> next_version (root_doc 3) = Inr 4 \<and>
   enabled offline_env example_world =
     Some (Inr False,
           (log WARN (Msg ''could not find key_mgr data for metadata signature verification'')
              offline_after_key_mgr)\<lparr>enabled_cache := Some False\<rparr>) \<and>
   last (trace ((log WARN (Msg ''could not find key_mgr data for metadata signature verification'')
              offline_after_key_mgr)\<lparr>enabled_cache := Some False\<rparr>)) =
     Log WARN (Msg ''could not find key_mgr data for metadata signature verification'')"
proof -
  have c: "trusted_root_cache example_world = None" "enabled_cache example_world = None"
    by (simp_all add: example_world_def)
  have r: "trusted_root example_env example_world = Some (Inr (root_doc 3), after_trusted_root)"
    by code_simp
  have en: "enabled offline_env example_world =
     Some (Inr False,
           (log WARN (Msg ''could not find key_mgr data for metadata signature verification'')
              offline_after_key_mgr)\<lparr>enabled_cache := Some False\<rparr>)"
    by code_simp
  have cfg: "extra_safety_checks offline_env" "\<not> url_base_unset offline_env" "cct_installed offline_env"
    by (simp_all add: offline_env_def example_env_def url_base_unset_def)
  have n: "next_version (root_doc 3) = Inr 4"
    by code_simp
  show ?thesis
    using r en n
      trusted_root_never_absent [OF c(1), where e = example_env and d = "root_doc 3"
        and wa = after_trusted_root]
      trusted_root_never_absent [OF c(1), where e = offline_env
        and wb = "(log WARN (Msg ''could not find key_mgr data for metadata signature verification'')
              offline_after_key_mgr)\<lparr>enabled_cache := Some False\<rparr>"]
    by (simp add: c cfg)
qed

section \<open>Whether verification is enabled\<close>

text \<open>
  C4, as stated, asks that \<open>enabled\<close> return \<open>False\<close> and raise nothing when the
  resolution of the trusted root fails. With a cached \<open>5.root.json\<close> that holds \<open>{}\<close>
  the resolution fails with \<open>KeyError\<close>, and \<open>enabled\<close> raises it: the property
  \<open>self.trusted_root\<close> is read outside any \<open>try\<close>.
\<close>

theorem enabled_raises_when_root_resolution_raises:
  "enabled example_env malformed_root_world =
     Some (Inl (KeyError ''signed''),
           \<lparr> av_dir = Some [(''5.root.json'', JObj [])], requests = 0,
             trace = [Glob, Log INFO (Msg ''Loading root metadata from /av/5.root.json.''),
                      Load ''5.root.json''],
             enabled_cache = None, trusted_root_cache = None, key_mgr_cache = None \<rparr>)"
  by code_simp

text \<open>
  C4, amended. On its first evaluation \<open>enabled\<close> returns \<open>False\<close>, and raises nothing,
  when extra safety checks are off, when no signing URL base is set, when
  \<open>conda_content_trust\<close> cannot be imported, and when \<open>key_mgr\<close> yields \<open>None\<close>. A
  failure of the trusted root never makes it return \<open>False\<close>: an exception that leaves
  \<open>trusted_root\<close> leaves \<open>enabled\<close> too, and whenever \<open>trusted_root\<close> returns (after a
  refresh that stopped at a failed request or verification as well) the result is decided
  by the key manager alone, \<open>True\<close> if it is a document and \<open>False\<close> if it is \<open>None\<close>.
  \<open>enabled\<close> returns \<open>True\<close> only when all three configuration checks pass and both
  properties yield a document.
\<close>

theorem enabled_outcomes:
  "enabled_cache w = None \<Longrightarrow>
   (\<not> extra_safety_checks e \<or> url_base_unset e \<or> \<not> cct_installed e \<longrightarrow>
      map_option fst (enabled e w) = Some (Inr False)) \<and>
   (extra_safety_checks e \<and> \<not> url_base_unset e \<and> cct_installed e \<and>
    trusted_root e (ensure_av_dir w) = Some (Inl x, wa) \<longrightarrow>
      enabled e w = Some (Inl x, wa)) \<and>
   (extra_safety_checks e \<and> \<not> url_base_unset e \<and> cct_installed e \<and>
    trusted_root e (ensure_av_dir w) = Some (Inr root, wa) \<and>
    (trusted_root_cache w = None \<or> root \<noteq> JNull) \<and>
    key_mgr e wa = Some (Inr km, wb) \<longrightarrow>
      enabled e w =
        (if km = JNull
         then Some (Inr False,
                (log WARN (Msg ''could not find key_mgr data for metadata signature verification'') wb)
                  \<lparr>enabled_cache := Some False\<rparr>)
         else Some (Inr True, wb\<lparr>enabled_cache := Some True\<rparr>))) \<and>
   (enabled e w = Some (Inr True, wc) \<longrightarrow>
      extra_safety_checks e \<and> \<not> url_base_unset e \<and> cct_installed e \<and>
      (\<exists>root km wa wb. root \<noteq> JNull \<and> km \<noteq> JNull \<and>
         trusted_root e (ensure_av_dir w) = Some (Inr root, wa) \<and>
         key_mgr e wa = Some (Inr km, wb)))"
proof -
  assume c: "enabled_cache w = None"
  have nonnull: "root \<noteq> JNull"
    if "trusted_root e (ensure_av_dir w) = Some (Inr root, wa)"
      and "trusted_root_cache w = None \<or> root \<noteq> JNull" for root wa
  proof (cases "root = JNull")
    case False
    then show ?thesis .
  next
    case True
    with that(2) have "trusted_root_cache (ensure_av_dir w) = None"
      by (simp add: ensure_av_dir_def)
    from trusted_root_result_has_version [OF this that(1)] show ?thesis
      using next_version_JNull by auto
  qed
  have 1: "\<not> extra_safety_checks e \<or> url_base_unset e \<or> \<not> cct_installed e \<longrightarrow>
      map_option fst (enabled e w) = Some (Inr False)"
    using c by (auto simp: enabled_def enabled_body_def)
  have 2: "extra_safety_checks e \<and> \<not> url_base_unset e \<and> cct_installed e \<and>
    trusted_root e (ensure_av_dir w) = Some (Inl x, wa) \<longrightarrow>
      enabled e w = Some (Inl x, wa)"
    using c by (simp add: enabled_def enabled_body_def)
  have 3: "extra_safety_checks e \<and> \<not> url_base_unset e \<and> cct_installed e \<and>
    trusted_root e (ensure_av_dir w) = Some (Inr root, wa) \<and>
    (trusted_root_cache w = None \<or> root \<noteq> JNull) \<and>
    key_mgr e wa = Some (Inr km, wb) \<longrightarrow>
      enabled e w =
        (if km = JNull
         then Some (Inr False,
                (log WARN (Msg ''could not find key_mgr data for metadata signature verification'') wb)
                  \<lparr>enabled_cache := Some False\<rparr>)
         else Some (Inr True, wb\<lparr>enabled_cache := Some True\<rparr>))"
  proof (intro impI)
    assume h: "extra_safety_checks e \<and> \<not> url_base_unset e \<and> cct_installed e \<and>
      trusted_root e (ensure_av_dir w) = Some (Inr root, wa) \<and>
      (trusted_root_cache w = None \<or> root \<noteq> JNull) \<and>
      key_mgr e wa = Some (Inr km, wb)"
    then have "root \<noteq> JNull"
      using nonnull by blast
    with h c show "enabled e w =
        (if km = JNull
         then Some (Inr False,
                (log WARN (Msg ''could not find key_mgr data for metadata signature verification'') wb)
                  \<lparr>enabled_cache := Some False\<rparr>)
         else Some (Inr True, wb\<lparr>enabled_cache := Some True\<rparr>))"
      by (simp add: enabled_def enabled_body_def)
  qed
  have 4: "enabled e w = Some (Inr True, wc) \<longrightarrow>
      extra_safety_checks e \<and> \<not> url_base_unset e \<and> cct_installed e \<and>
      (\<exists>root km wa wb. root \<noteq> JNull \<and> km \<noteq> JNull \<and>
         trusted_root e (ensure_av_dir w) = Some (Inr root, wa) \<and>
         key_mgr e wa = Some (Inr km, wb))"
    using c
    by (auto simp: enabled_def enabled_body_def
        split: option.splits sum.splits prod.splits if_splits)
  from 1 2 3 4 show ?thesis
    by blast
qed

theorem enabled_outcomes_witness:
  "map_option fst (enabled (example_env\<lparr>extra_safety_checks := False\<rparr>) example_world) = Some (Inr False) \<and>
   map_option fst (enabled (example_env\<lparr>signing_metadata_url_base := None\<rparr>) example_world) = Some (Inr False) \<and>
   map_option fst (enabled (example_env\<lparr>cct_installed := False\<rparr>) example_world) = Some (Inr False) \<and>
   map_option fst (enabled example_env malformed_root_world) = Some (Inl (KeyError ''signed'')) \<and>
   enabled offline_env example_world =
     Some (Inr False,
           (log WARN (Msg ''could not find key_mgr data for metadata signature verification'')
              offline_after_key_mgr)\<lparr>enabled_cache := Some False\<rparr>) \<and>
   enabled example_env example_world = Some (Inr True, after_enabled) \<and>
   extra_safety_checks example_env \<and> \<not> url_base_unset example_env \<and> cct_installed example_env"
proof -
  have c: "enabled_cache example_world = None" "enabled_cache malformed_root_world = None"
    "trusted_root_cache example_world = None"
    by (simp_all add: example_world_def malformed_root_world_def)
  have cfg: "\<not> extra_safety_checks (example_env\<lparr>extra_safety_checks := False\<rparr>)"
    "url_base_unset (example_env\<lparr>signing_metadata_url_base := None\<rparr>)"
    "\<not> cct_installed (example_env\<lparr>cct_installed := False\<rparr>)"
    "extra_safety_checks example_env" "\<not> url_base_unset example_env" "cct_installed example_env"
    "extra_safety_checks offline_env" "\<not> url_base_unset offline_env" "cct_installed offline_env"
    by (simp_all add: example_env_def offline_env_def url_base_unset_def)
  have r1: "trusted_root example_env (ensure_av_dir malformed_root_world) =
      Some (Inl (KeyError ''signed''), snd (the (trusted_root example_env malformed_root_world)))"
    by code_simp
  have r2: "trusted_root offline_env (ensure_av_dir example_world) = Some (Inr (root_doc 1), offline_after_root)"
    by code_simp
  have k2: "key_mgr offline_env offline_after_root = Some (Inr JNull, offline_after_key_mgr)"
    by code_simp
  have t: "enabled example_env example_world = Some (Inr True, after_enabled)"
    by code_simp
  have 1: "map_option fst (enabled (example_env\<lparr>extra_safety_checks := False\<rparr>) example_world) = Some (Inr False)"
    using enabled_outcomes [OF c(1), where e = "example_env\<lparr>extra_safety_checks := False\<rparr>"]
    by (simp add: cfg)
  have 2: "map_option fst (enabled (example_env\<lparr>signing_metadata_url_base := None\<rparr>) example_world) = Some (Inr False)"
    using enabled_outcomes [OF c(1), where e = "example_env\<lparr>signing_metadata_url_base := None\<rparr>"]
    by (simp add: cfg)
  have 3: "map_option fst (enabled (example_env\<lparr>cct_installed := False\<rparr>) example_world) = Some (Inr False)"
    using enabled_outcomes [OF c(1), where e = "example_env\<lparr>cct_installed := False\<rparr>"]
    by (simp add: cfg)
  have 4: "map_option fst (enabled example_env malformed_root_world) = Some (Inl (KeyError ''signed''))"
    using enabled_outcomes [OF c(2), where e = example_env and x = "KeyError ''signed''"
        and wa = "snd (the (trusted_root example_env malformed_root_world))"]
    by (simp add: cfg r1)
  have 5: "enabled offline_env example_world =
     Some (Inr False,
           (log WARN (Msg ''could not find key_mgr data for metadata signature verification'')
              offline_after_key_mgr)\<lparr>enabled_cache := Some False\<rparr>)"
    using enabled_outcomes [OF c(1), where e = offline_env and root = "root_doc 1"
        and wa = offline_after_root and km = JNull and wb = offline_after_key_mgr]
    by (simp add: cfg r2 k2 c)
  have 6: "extra_safety_checks example_env \<and> \<not> url_base_unset example_env \<and> cct_installed example_env"
    using enabled_outcomes [OF c(1), where e = example_env and wc = after_enabled] t
    by blast
  from 1 2 3 4 5 6 t show ?thesis
    by simp
qed

section \<open>The key manager when the server is out of reach\<close>

text \<open>
  C5. The comment in \<open>key_mgr\<close> says that when the key manager is unavailable from the
  server the copy on disk is used, and \<open>trusted_root\<close> next to it survives every failed
  request. With \<open>key_mgr.json\<close> on disk and a request that fails with the connection error
  of the HTTP client, \<open>key_mgr\<close> raises that error: nothing is logged and the file is
  not read. The fallback is taken only for the two classes the \<open>except\<close> clause names, as
  the same directory shows with the builtin \<open>ConnectionError\<close>.
\<close>

theorem key_mgr_raises_on_client_connection_error:
  "key_mgr client_error_env cached_key_mgr_world =
     Some (Inl (OtherException ''requests.exceptions.ConnectionError''),
           \<lparr> av_dir = Some [(''key_mgr.json'', example_key_mgr)], requests = 1,
             trace = [Get ''key_mgr.json''],
             enabled_cache = None, trusted_root_cache = None, key_mgr_cache = None \<rparr>) \<and>
   key_mgr offline_env cached_key_mgr_world =
     Some (Inr example_key_mgr,
           \<lparr> av_dir = Some [(''key_mgr.json'', example_key_mgr)], requests = 1,
             trace = [Get ''key_mgr.json'', Log WARN (Err ConnectionError), Load ''key_mgr.json''],
             enabled_cache = None, trusted_root_cache = None,
             key_mgr_cache = Some example_key_mgr \<rparr>)"
  by code_simp

end
